theory Spec2Isabelle
  imports Main "HOL-Library.Word"
begin

section \<open>Strings (Go package strings, on byte strings)\<close>

text \<open>
  A Go string is a sequence of bytes, here a \<^typ>\<open>string\<close>. The functions below are the
  ones of package \<^verbatim>\<open>strings\<close> that the program calls. \<^verbatim>\<open>ToLower\<close> and \<^verbatim>\<open>Trim\<close> are given
  on ASCII; Go treats runes beyond ASCII by their Unicode class there, which no statement
  below depends on.
\<close>

fun strings_HasPrefix :: "string \<Rightarrow> string \<Rightarrow> bool" where
  "strings_HasPrefix s [] = True"
| "strings_HasPrefix [] (p # ps) = False"
| "strings_HasPrefix (c # cs) (p # ps) = (c = p \<and> strings_HasPrefix cs ps)"

fun strings_Contains :: "string \<Rightarrow> string \<Rightarrow> bool" where
  "strings_Contains [] sub = (sub = [])"
| "strings_Contains (c # cs) sub = (strings_HasPrefix (c # cs) sub \<or> strings_Contains cs sub)"

definition strings_TrimPrefix :: "string \<Rightarrow> string \<Rightarrow> string" where
  "strings_TrimPrefix s p = (if strings_HasPrefix s p then drop (length p) s else s)"

text \<open>\<^verbatim>\<open>strings.Split(s, "\n")\<close>: the pieces between the separators, never an empty slice.\<close>

fun split_acc :: "char \<Rightarrow> string \<Rightarrow> string \<Rightarrow> string list" where
  "split_acc sep cur [] = [rev cur]"
| "split_acc sep cur (c # cs) =
     (if c = sep then rev cur # split_acc sep [] cs else split_acc sep (c # cur) cs)"

definition strings_Split :: "string \<Rightarrow> char \<Rightarrow> string list" where
  "strings_Split s sep = split_acc sep [] s"

definition lower_char :: "char \<Rightarrow> char" where
  "lower_char c =
     (case map_of (zip ''ABCDEFGHIJKLMNOPQRSTUVWXYZ'' ''abcdefghijklmnopqrstuvwxyz'') c of
        None \<Rightarrow> c
      | Some d \<Rightarrow> d)"

definition strings_ToLower :: "string \<Rightarrow> string" where
  "strings_ToLower s = map lower_char s"

text \<open>
  \<^verbatim>\<open>strings.TrimSpace\<close> removes the leading and the trailing runes that are white space in
  Unicode. On the bytes of the string these are the UTF-8 encodings of U+0009 to U+000D,
  U+0020, U+0085, U+00A0, U+1680, U+2000 to U+200A, U+2028, U+2029, U+202F, U+205F and
  U+3000. A byte that starts no such encoding, an invalid byte among them, is no white
  space and ends the trimming. At the end of the string the encodings are read backwards.
\<close>

definition space_runes :: "string list" where
  "space_runes =
     [[CHR 0x09], [CHR 0x0A], [CHR 0x0B], [CHR 0x0C], [CHR 0x0D], [CHR 0x20],
      [CHR 0xC2, CHR 0x85], [CHR 0xC2, CHR 0xA0],
      [CHR 0xE1, CHR 0x9A, CHR 0x80],
      [CHR 0xE2, CHR 0x80, CHR 0x80], [CHR 0xE2, CHR 0x80, CHR 0x81],
      [CHR 0xE2, CHR 0x80, CHR 0x82], [CHR 0xE2, CHR 0x80, CHR 0x83],
      [CHR 0xE2, CHR 0x80, CHR 0x84], [CHR 0xE2, CHR 0x80, CHR 0x85],
      [CHR 0xE2, CHR 0x80, CHR 0x86], [CHR 0xE2, CHR 0x80, CHR 0x87],
      [CHR 0xE2, CHR 0x80, CHR 0x88], [CHR 0xE2, CHR 0x80, CHR 0x89],
      [CHR 0xE2, CHR 0x80, CHR 0x8A],
      [CHR 0xE2, CHR 0x80, CHR 0xA8], [CHR 0xE2, CHR 0x80, CHR 0xA9],
      [CHR 0xE2, CHR 0x80, CHR 0xAF], [CHR 0xE2, CHR 0x81, CHR 0x9F],
      [CHR 0xE3, CHR 0x80, CHR 0x80]]"

fun strip_rune :: "string list \<Rightarrow> string \<Rightarrow> string option" where
  "strip_rune [] s = None"
| "strip_rune (r # rs) s =
     (if r \<noteq> [] \<and> strings_HasPrefix s r then Some (drop (length r) s) else strip_rune rs s)"

function trim_runes :: "string list \<Rightarrow> string \<Rightarrow> string" where
  "trim_runes rs s = (case strip_rune rs s of None \<Rightarrow> s | Some rest \<Rightarrow> trim_runes rs rest)"
  by pat_completeness auto
termination
proof (relation "measure (\<lambda>(rs, s). length s)")
  show "wf (measure (\<lambda>(rs, s). length s))" by simp
next
  fix rs :: "string list" and s rest :: string
  assume a: "strip_rune rs s = Some rest"
  have hp: "strings_HasPrefix t p \<Longrightarrow> length p \<le> length t" for t p
    by (induction t p rule: strings_HasPrefix.induct) auto
  from a have "length rest < length s"
  proof (induction rs)
    case Nil
    then show ?case by simp
  next
    case (Cons r rs)
    show ?case
    proof (cases "r \<noteq> [] \<and> strings_HasPrefix s r")
      case True
      with Cons.prems have "rest = drop (length r) s" by simp
      moreover from True have "length r \<le> length s" by (simp add: hp)
      ultimately show ?thesis using True by (cases r) auto
    next
      case False
      with Cons show ?thesis by auto
    qed
  qed
  then show "((rs, rest), rs, s) \<in> measure (\<lambda>(rs, s). length s)" by simp
qed

declare trim_runes.simps [simp del]

definition strings_TrimSpace :: "string \<Rightarrow> string" where
  "strings_TrimSpace s =
     rev (trim_runes (map rev space_runes) (rev (trim_runes space_runes s)))"

text \<open>\<^verbatim>\<open>strings.Trim(s, cutset)\<close> removes every leading and trailing character that
  occurs in the cutset.\<close>

definition strings_Trim :: "string \<Rightarrow> string \<Rightarrow> string" where
  "strings_Trim s cutset =
     rev (dropWhile (\<lambda>c. c \<in> set cutset) (rev (dropWhile (\<lambda>c. c \<in> set cutset) s)))"

section \<open>Errors\<close>

text \<open>A Go \<^verbatim>\<open>error\<close> value, by its message.\<close>

datatype error = Error string

section \<open>Semantic versions (github.com/Masterminds/semver)\<close>

text \<open>
  The program imports the library under its v1 path, where the three numbers are
  \<^verbatim>\<open>int64\<close>. \<^verbatim>\<open>IncPatch\<close> of a pre-release version drops the pre-release and keeps the
  patch number; \<^verbatim>\<open>IncMinor\<close> resets the patch number. Both rebuild \<^verbatim>\<open>original\<close> from
  the prefix \<^verbatim>\<open>v\<close> of the old one and the new \<^verbatim>\<open>String()\<close>.
\<close>

record Version =
  major :: "64 word"
  minor :: "64 word"
  patch :: "64 word"
  pre :: string
  metadata :: string
  original :: string

definition zero_Version :: Version where
  "zero_Version =
     \<lparr>major = 0, minor = 0, patch = 0, pre = '''', metadata = '''', original = ''''\<rparr>"

fun show_nat :: "nat \<Rightarrow> string" where
  "show_nat n =
     (if n < 10 then [''0123456789'' ! n]
      else show_nat (n div 10) @ [''0123456789'' ! (n mod 10)])"

declare show_nat.simps [simp del]

definition show_int64 :: "64 word \<Rightarrow> string" where
  "show_int64 w = (if sint w < 0 then CHR ''-'' # show_nat (nat (- sint w)) else show_nat (nat (sint w)))"

definition Version_String :: "Version \<Rightarrow> string" where
  "Version_String v =
     show_int64 (major v) @ ''.'' @ show_int64 (minor v) @ ''.'' @ show_int64 (patch v)
     @ (if pre v \<noteq> '''' then ''-'' @ pre v else '''')
     @ (if metadata v \<noteq> '''' then ''+'' @ metadata v else '''')"

definition Prerelease :: "Version \<Rightarrow> string" where
  "Prerelease v = pre v"

definition originalVPrefix :: "Version \<Rightarrow> string" where
  "originalVPrefix v = (if original v \<noteq> '''' \<and> take 1 (original v) = ''v'' then ''v'' else '''')"

definition IncPatch :: "Version \<Rightarrow> Version" where
  "IncPatch v =
     (let vNext = (if pre v \<noteq> '''' then v\<lparr>metadata := '''', pre := ''''\<rparr>
                   else v\<lparr>metadata := '''', pre := '''', patch := patch v + 1\<rparr>)
      in vNext\<lparr>original := originalVPrefix v @ Version_String vNext\<rparr>)"

definition IncMinor :: "Version \<Rightarrow> Version" where
  "IncMinor v =
     (let vNext = v\<lparr>metadata := '''', pre := '''', patch := 0, minor := minor v + 1\<rparr>
      in vNext\<lparr>original := originalVPrefix v @ Version_String vNext\<rparr>)"

definition IncMajor :: "Version \<Rightarrow> Version" where
  "IncMajor v =
     (let vNext = v\<lparr>metadata := '''', pre := '''', patch := 0, minor := 0, major := major v + 1\<rparr>
      in vNext\<lparr>original := originalVPrefix v @ Version_String vNext\<rparr>)"

section \<open>Data of package semrel\<close>

record Change =
  Major :: bool
  Minor :: bool
  Patch :: bool

record Commit =
  SHA :: string
  Raw :: "string list"
  Type :: string
  Scope :: string
  Message :: string
  Change :: Change

text \<open>\<^verbatim>\<open>new(Commit)\<close>: every field at its zero value.\<close>

definition new_Commit :: Commit where
  "new_Commit =
     \<lparr>SHA = '''', Raw = [], Type = '''', Scope = '''', Message = '''',
      Change = \<lparr>Major = False, Minor = False, Patch = False\<rparr>\<rparr>"

record Release =
  SHA :: string
  Version :: Version

section \<open>Configuration and external functions\<close>

text \<open>The fields of \<^verbatim>\<open>config.Config\<close> that the program reads.\<close>

record Config =
  Token :: string
  Slug :: string
  Changelog :: string
  Ghr :: bool
  Noci :: bool
  Dry :: bool
  Vf :: bool
  Update :: string
  GheHost :: string
  Prerelease_flag :: bool
  TravisCom :: bool
  MaintainedVersion :: string
  Match :: string
  GitLab :: bool
  GitLabBaseURL :: string
  GitLabProjectID :: string
  CurrentBranch :: string
  BaseBranch :: string
  Pkgname :: string
  CommitHash :: string

text \<open>A compiled \<^verbatim>\<open>*regexp.Regexp\<close>, by its \<^verbatim>\<open>MatchString\<close>.\<close>

type_synonym Regexp = "string \<Rightarrow> bool"

text \<open>
  The functions below are called by \<^verbatim>\<open>cliHandler\<close> and by the GitHub provider but declared
  elsewhere: in other files of package semrel (\<^verbatim>\<open>commitPattern\<close>, \<^verbatim>\<open>breakingPattern\<close>,
  \<^verbatim>\<open>Releases.GetLatestRelease\<close>, \<^verbatim>\<open>GetNewVersion\<close>, \<^verbatim>\<open>GetChangelog\<close>) or in libraries
  (\<^verbatim>\<open>semver.NewVersion\<close>, \<^verbatim>\<open>regexp.MustCompile\<close>). They are parameters of the model:
  \<^item> \<open>commitPattern\<close> gives, for a line, the matches of
    \<^verbatim>\<open>FindAllStringSubmatch(line, -1)\<close>, each by its capture groups 1, 2 and 3;
  \<^item> \<open>breakingPattern\<close> is \<^verbatim>\<open>MatchString\<close> of that pattern;
  \<^item> \<open>semver_NewVersion\<close> returns the version or the parse error;
  \<^item> \<open>regexp_MustCompile\<close> is \<open>None\<close> where the library panics;
  \<^item> \<open>GetNewVersion\<close> is \<open>None\<close> where the function returns \<^verbatim>\<open>nil\<close>.
\<close>

record externals =
  commitPattern :: "string \<Rightarrow> (string \<times> string \<times> string) list"
  breakingPattern :: "string \<Rightarrow> bool"
  semver_NewVersion :: "string \<Rightarrow> error + Version"
  regexp_MustCompile :: "string \<Rightarrow> Regexp option"
  Releases_GetLatestRelease :: "Release list \<Rightarrow> string \<Rightarrow> string \<Rightarrow> error + Release"
  GetNewVersion :: "Config \<Rightarrow> Commit list \<Rightarrow> Release \<Rightarrow> Version option"
  GetChangelog :: "Commit list \<Rightarrow> Release \<Rightarrow> Version \<Rightarrow> string"

section \<open>The version resolver of the specification\<close>

text \<open>
  Modelled from the spec: the fold of the change flags inside \<^verbatim>\<open>semrel.GetNewVersion\<close>,
  which is declared in another file of package semrel. Section 4.2 of the specification:
  the flags of all commits are combined with logical OR, in any order.
\<close>

definition CalculateChange :: "Commit list \<Rightarrow> Change" where
  "CalculateChange cs =
     foldl (\<lambda>change c. \<lparr>Major = (Major change \<or> Major (Change c)),
                         Minor = (Minor change \<or> Minor (Change c)),
                         Patch = (Patch change \<or> Patch (Change c))\<rparr>)
           \<lparr>Major = False, Minor = False, Patch = False\<rparr> cs"

text \<open>
  Modelled from the spec: \<^verbatim>\<open>semrel.GetNewVersion\<close>, which is declared in another file of
  package semrel. Section 4.2 of the specification: the bump is major if any commit is
  breaking, else minor if any is a feature, else patch if any is a fix, else none, and
  none gives no version; the bump is applied to the version of the previous release with
  the increments of the version library; in a maintained pre-release line, which is a
  maintained version with a pre-release part, the pre-release numbering is incremented
  within the same three numbers instead. The specification does not say how that
  numbering is written: it is the parameter \<open>next_prerelease\<close>.
\<close>

definition GetNewVersion_spec ::
  "(Version \<Rightarrow> Version) \<Rightarrow> Config \<Rightarrow> Commit list \<Rightarrow> Release \<Rightarrow> Version option" where
  "GetNewVersion_spec next_prerelease cnf cs rel =
     (let change = CalculateChange cs
      in if \<not> Major change \<and> \<not> Minor change \<and> \<not> Patch change then None
         else if strings_Contains (MaintainedVersion cnf) ''-''
         then Some (next_prerelease (Version rel))
         else if Major change then Some (IncMajor (Version rel))
         else if Minor change then Some (IncMinor (Version rel))
         else Some (IncPatch (Version rel)))"

section \<open>The GitHub provider: classification of a commit\<close>

text \<open>What the program reads of a \<^verbatim>\<open>github.RepositoryCommit\<close>, through its nil-safe getters.\<close>

record RepositoryCommit =
  GetSHA :: string
  GetMessage :: string

text \<open>
  \<^verbatim>\<open>parseGithubCommit\<close>. \<^verbatim>\<open>c.Raw[0]\<close> exists since \<^verbatim>\<open>strings.Split\<close> returns at least one
  piece (lemma \<open>strings_Split_not_Nil\<close>); the branch for the empty slice is never taken.
\<close>

definition parseGithubCommit :: "externals \<Rightarrow> RepositoryCommit \<Rightarrow> string \<Rightarrow> Commit" where
  "parseGithubCommit X commit pkg =
     (let c = new_Commit\<lparr>Commit.SHA := GetSHA commit,
                         Raw := strings_Split (GetMessage commit) CHR 0x0A\<rparr>
      in case Raw c of
           [] \<Rightarrow> c
         | line0 # _ \<Rightarrow>
             (case commitPattern X line0 of
                [] \<Rightarrow> c
              | (g1, g2, g3) # _ \<Rightarrow>
                  if pkg \<noteq> '''' \<and> pkg = g2
                  then (let ty = strings_ToLower g1
                        in c\<lparr>Type := ty, Scope := g2, Message := g3,
                             Change := \<lparr>Major = breakingPattern X (GetMessage commit),
                                        Minor = (ty = ''feat''),
                                        Patch = (ty = ''fix'')\<rparr>\<rparr>)
                  else c))"

section \<open>Results and effects\<close>

text \<open>
  A Go call returns its value, returns an error, or panics. The requests that change the
  hosted repository or the file system are recorded as events, in the order in which the
  program issues them; a request that returns no error has taken effect.
\<close>

datatype 'a result = Ok 'a | Err error | Panic

record RepositoryRelease =
  TagName :: string
  Name :: string
  TargetCommitish :: string
  Body :: string
  Prerelease_opt :: bool

datatype event =
    CreateRef string string
  | CreateReleaseObject RepositoryRelease
  | WriteFile string string
  | UpdateApply string string

section \<open>The GitHub provider\<close>

text \<open>What the program reads of a \<^verbatim>\<open>github.Reference\<close> and of a \<^verbatim>\<open>github.Response\<close>.\<close>

record Reference =
  GetRef :: string
  Object_GetType :: string
  Object_GetSHA :: string

record Response =
  StatusCode :: nat
  NextPage :: nat

text \<open>
  The GitHub client: what each request of the program returns. \<open>Git_ListRefs\<close> takes
  the page of the list options, \<open>Git_CreateRef\<close> the reference name and the SHA of its
  object, \<open>Repositories_ListCommits\<close> the SHA of the list options.
\<close>

record Client =
  Repositories_Get :: "(string \<times> bool) \<times> error option"
  Repositories_ListCommits :: "string \<Rightarrow> RepositoryCommit list \<times> error option"
  Git_ListRefs :: "nat \<Rightarrow> Reference list \<times> Response option \<times> error option"
  Git_CreateRef :: "string \<Rightarrow> string \<Rightarrow> error option"
  Repositories_CreateRelease :: "RepositoryRelease \<Rightarrow> error option"

record GitHubRepository =
  owner :: string
  repo :: string
  Client :: Client

definition GitHub_GetInfo :: "(string \<Rightarrow> string) \<Rightarrow> GitHubRepository \<Rightarrow> string \<times> bool \<times> error option" where
  "GitHub_GetInfo os_Getenv gh =
     (case Repositories_Get (Client gh) of
        (r, Some err) \<Rightarrow> ('''', False, Some err)
      | ((GetDefaultBranch, GetPrivate), None) \<Rightarrow>
          (let branch = (if os_Getenv ''branch_name'' \<noteq> '''' then os_Getenv ''branch_name''
                         else GetDefaultBranch)
           in (branch, GetPrivate, None)))"

definition GitHub_GetCommits :: "externals \<Rightarrow> GitHubRepository \<Rightarrow> string \<Rightarrow> string \<Rightarrow> error + Commit list" where
  "GitHub_GetCommits X gh sha pkg =
     (case Repositories_ListCommits (Client gh) sha of
        (commits, Some err) \<Rightarrow> Inl err
      | (commits, None) \<Rightarrow> Inr (map (\<lambda>commit. parseGithubCommit X commit pkg) commits))"

text \<open>The tag of a reference as the version parser sees it (the first lines of the loop
  over a page of \<^verbatim>\<open>GetLatestRelease\<close>).\<close>

definition candidate_tag :: "string \<Rightarrow> Reference \<Rightarrow> string" where
  "candidate_tag pkg_name r =
     (let tag = strings_TrimPrefix (GetRef r) ''refs/tags/''
      in if strings_Contains tag (pkg_name @ ''-release-'')
         then strings_TrimPrefix tag (pkg_name @ ''-release-'')
         else tag)"

text \<open>One iteration of the loop over a page: \<^verbatim>\<open>continue\<close> leaves \<open>allReleases\<close> as it is.\<close>

definition scan_ref :: "externals \<Rightarrow> Regexp option \<Rightarrow> string \<Rightarrow> Release list \<Rightarrow> Reference \<Rightarrow> Release list" where
  "scan_ref X re pkg_name allReleases r =
     (let tag = candidate_tag pkg_name r
      in if (case re of None \<Rightarrow> False | Some m \<Rightarrow> \<not> m tag) then allReleases
         else if Object_GetType r \<noteq> ''commit'' then allReleases
         else (case semver_NewVersion X tag of
                 Inl err \<Rightarrow> allReleases
               | Inr version \<Rightarrow> allReleases @ [\<lparr>Release.SHA = Object_GetSHA r, Version = version\<rparr>]))"

definition zero_Release :: Release where
  "zero_Release = \<lparr>Release.SHA = '''', Version = zero_Version\<rparr>"

text \<open>
  The pagination loop of \<^verbatim>\<open>GetLatestRelease\<close>. It ends when a response has status 404,
  when a request fails, or when a response names no next page; \<open>None\<close> is the loop that
  never ends. Dereferencing a \<^verbatim>\<open>nil\<close> response after a request without error panics.
\<close>

partial_function (option) list_all_refs ::
  "externals \<Rightarrow> Client \<Rightarrow> Regexp option \<Rightarrow> string \<Rightarrow> nat \<Rightarrow> Release list \<Rightarrow> (Release list + Release) result option" where
  "list_all_refs X cl re pkg_name page allReleases =
     (case Git_ListRefs cl page of
        (refs, resp, err) \<Rightarrow>
          if (case resp of None \<Rightarrow> False | Some rs \<Rightarrow> StatusCode rs = 404)
          then Some (Ok (Inr zero_Release))
          else (case err of
                  Some e \<Rightarrow> Some (Err e)
                | None \<Rightarrow>
                    (let allReleases' = foldl (scan_ref X re pkg_name) allReleases refs
                     in case resp of
                          None \<Rightarrow> Some Panic
                        | Some rs \<Rightarrow>
                            if NextPage rs = 0 then Some (Ok (Inl allReleases'))
                            else list_all_refs X cl re pkg_name (NextPage rs) allReleases')))"

declare list_all_refs.simps [code]

definition GitHub_GetLatestRelease ::
  "externals \<Rightarrow> GitHubRepository \<Rightarrow> string \<Rightarrow> Regexp option \<Rightarrow> string \<Rightarrow> string \<Rightarrow> Release result option" where
  "GitHub_GetLatestRelease X gh vrange re pkg_name lastVersionHotfix =
     (case list_all_refs X (Client gh) re pkg_name 0 [] of
        None \<Rightarrow> None
      | Some Panic \<Rightarrow> Some Panic
      | Some (Err e) \<Rightarrow> Some (Err e)
      | Some (Ok (Inr release)) \<Rightarrow> Some (Ok release)
      | Some (Ok (Inl allReleases)) \<Rightarrow>
          (case Releases_GetLatestRelease X allReleases vrange lastVersionHotfix of
             Inl e \<Rightarrow> Some (Err e)
           | Inr release \<Rightarrow> Some (Ok release)))"

definition GitHub_CreateRelease ::
  "GitHubRepository \<Rightarrow> string \<Rightarrow> Version \<Rightarrow> bool \<Rightarrow> string \<Rightarrow> string \<Rightarrow> string \<Rightarrow> string \<Rightarrow> error option \<times> event list" where
  "GitHub_CreateRelease gh changelog newVersion prerelease branch sha currentSHA pkgName =
     (let tag = pkgName @ ''-release-v'' @ Version_String newVersion;
          isPrerelease = (prerelease \<or> Prerelease newVersion \<noteq> '''');
          ref = ''refs/tags/'' @ tag
      in case Git_CreateRef (Client gh) ref currentSHA of
           Some err \<Rightarrow> (Some err, [CreateRef ref currentSHA])
         | None \<Rightarrow>
             (let opts = \<lparr>TagName = tag, Name = tag, TargetCommitish = currentSHA,
                          Body = changelog, Prerelease_opt = isPrerelease\<rparr>
              in case Repositories_CreateRelease (Client gh) opts of
                   Some err \<Rightarrow> (Some err, [CreateRef ref currentSHA, CreateReleaseObject opts])
                 | None \<Rightarrow>
                     if branch = ''master''
                     then (let tag' = pkgName @ ''-branch-v'' @ Version_String newVersion;
                               ref' = ''refs/heads/'' @ tag'
                           in (Git_CreateRef (Client gh) ref' currentSHA,
                               [CreateRef ref currentSHA, CreateReleaseObject opts,
                                CreateRef ref' currentSHA]))
                     else (None, [CreateRef ref currentSHA, CreateReleaseObject opts])))"

section \<open>The provider interface and the command line handler\<close>

text \<open>The interface \<^verbatim>\<open>semrel.Repository\<close>: a value of it is the record of its methods.\<close>

record Repository =
  GetInfo :: "string \<times> bool \<times> error option"
  GetCommits :: "string \<Rightarrow> string \<Rightarrow> error + Commit list"
  GetLatestRelease :: "string \<Rightarrow> Regexp option \<Rightarrow> string \<Rightarrow> string \<Rightarrow> Release result option"
  CreateRelease ::
    "string \<Rightarrow> Version \<Rightarrow> bool \<Rightarrow> string \<Rightarrow> string \<Rightarrow> string \<Rightarrow> string \<Rightarrow> error option \<times> event list"
  Owner :: string
  Repo :: string
  Provider :: string

definition GitHub_Repository :: "externals \<Rightarrow> (string \<Rightarrow> string) \<Rightarrow> GitHubRepository \<Rightarrow> Repository" where
  "GitHub_Repository X os_Getenv gh =
     \<lparr>GetInfo = GitHub_GetInfo os_Getenv gh,
      GetCommits = GitHub_GetCommits X gh,
      GetLatestRelease = GitHub_GetLatestRelease X gh,
      CreateRelease = GitHub_CreateRelease gh,
      Owner = owner gh,
      Repo = repo gh,
      Provider = ''GitHub''\<rparr>"

text \<open>\<^verbatim>\<open>NewGitHubRepository\<close>; \<^verbatim>\<open>split[1]\<close> exists for a slug that contains a slash.\<close>

definition NewGitHubRepository ::
  "(string \<Rightarrow> Client) \<Rightarrow> (string \<Rightarrow> string \<Rightarrow> error + Client) \<Rightarrow> string \<Rightarrow> string \<Rightarrow> string \<Rightarrow> GitHubRepository result" where
  "NewGitHubRepository NewClient NewEnterpriseClient gheHost slug token =
     (if \<not> strings_Contains slug ''/'' then Err (Error ''invalid slug'')
      else (case strings_Split slug CHR ''/'' of
              split0 # split1 # _ \<Rightarrow>
                if gheHost \<noteq> ''''
                then (case NewEnterpriseClient (''https://'' @ gheHost @ ''/api/v3/'') token of
                        Inl err \<Rightarrow> Err err
                      | Inr rClient \<Rightarrow> Ok \<lparr>owner = split0, repo = split1, Client = rClient\<rparr>)
                else Ok \<lparr>owner = split0, repo = split1, Client = NewClient token\<rparr>
            | _ \<Rightarrow> Panic))"

text \<open>The CI service, as \<^verbatim>\<open>condition.NewCI()\<close> detects it, and the map it is configured with.\<close>

record CIConfig =
  cfg_token :: string
  cfg_defaultBranch :: string
  cfg_private :: bool

record CI =
  GetCurrentBranch :: string
  GetCurrentSHA :: string
  RunCondition :: "CIConfig \<Rightarrow> error option"

text \<open>
  Everything outside the program that a run depends on: the parsed command line, the CI
  service, the providers' clients, the environment, and the results of writing files and
  of \<^verbatim>\<open>update.Apply\<close>. The GitLab provider is declared elsewhere in package semrel and
  is a parameter.
\<close>

record World =
  externals :: externals
  config_NewConfig :: "error + Config"
  condition_NewCI :: CI
  semrel_NewGitLabRepository ::
    "string \<Rightarrow> string \<Rightarrow> string \<Rightarrow> string \<Rightarrow> string \<Rightarrow> error + Repository"
  github_NewClient :: "string \<Rightarrow> Client"
  github_NewEnterpriseClient :: "string \<Rightarrow> string \<Rightarrow> error + Client"
  os_Getenv :: "string \<Rightarrow> string"
  ioutil_WriteFile :: "string \<Rightarrow> string \<Rightarrow> error option"
  update_Apply :: "string \<Rightarrow> string \<Rightarrow> error option"

text \<open>
  How a run of \<^verbatim>\<open>cliHandler\<close> ends: \<^verbatim>\<open>os.Exit\<close> with a code after logging an error, a
  panic, a loop that never ends, or \<^verbatim>\<open>return nil\<close>. Log output is not modelled.
\<close>

datatype outcome = Exited int error | Panicked | Diverged | Returned

text \<open>\<^verbatim>\<open>errorHandler\<close>, for an error that is not \<^verbatim>\<open>nil\<close>.\<close>

definition exitIfError :: "error \<Rightarrow> int list \<Rightarrow> outcome" where
  "exitIfError err exitCode = (case exitCode of [code] \<Rightarrow> Exited code err | _ \<Rightarrow> Exited 1 err)"

text \<open>The local variables of \<^verbatim>\<open>cliHandler\<close>; one that is not assigned yet holds a zero value.\<close>

record locals =
  conf :: Config
  ci :: CI
  repo :: Repository
  defaultBranch :: string
  isPrivate :: bool
  currentBranch :: string
  currentSha :: string
  release :: Release
  commits :: "Commit list"
  newVer :: Version

text \<open>From the start of \<^verbatim>\<open>cliHandler\<close> to \<^verbatim>\<open>found current sha\<close>.\<close>

definition startup :: "World \<Rightarrow> outcome + locals" where
  "startup w =
     (case config_NewConfig w of
        Inl err \<Rightarrow> Inl (exitIfError err [])
      | Inr cnf \<Rightarrow>
          (let cci = condition_NewCI w;
               r = (if GitLab cnf
                    then (case semrel_NewGitLabRepository w (GitLabBaseURL cnf) (Slug cnf)
                                 (Token cnf) (GetCurrentBranch cci) (GitLabProjectID cnf) of
                            Inl err \<Rightarrow> Err err
                          | Inr rp \<Rightarrow> Ok rp)
                    else (case NewGitHubRepository (github_NewClient w) (github_NewEnterpriseClient w)
                                 (GheHost cnf) (Slug cnf) (Token cnf) of
                            Err err \<Rightarrow> Err err
                          | Panic \<Rightarrow> Panic
                          | Ok gh \<Rightarrow> Ok (GitHub_Repository (externals w) (os_Getenv w) gh)))
           in case r of
                Err err \<Rightarrow> Inl (exitIfError err [])
              | Panic \<Rightarrow> Inl Panicked
              | Ok rp1 \<Rightarrow>
                  (case GetInfo rp1 of
                     (dBranch, private, Some err) \<Rightarrow> Inl (exitIfError err [])
                   | (dBranch, private, None) \<Rightarrow>
                       (let cBranch = (if CurrentBranch cnf \<noteq> '''' then CurrentBranch cnf
                                             else GetCurrentBranch cci)
                        in if cBranch = ''''
                           then Inl (exitIfError (Error ''current branch not found'') [])
                           else if MaintainedVersion cnf \<noteq> '''' \<and> cBranch = dBranch
                           then Inl (exitIfError (Error ''maintained version not allowed on default branch'') [])
                           else Inr \<lparr>conf = cnf, ci = cci, repo = rp1,
                                     defaultBranch = (if MaintainedVersion cnf \<noteq> '''' then ''*''
                                                      else dBranch),
                                     isPrivate = private,
                                     currentBranch = cBranch,
                                     currentSha = (if CurrentBranch cnf \<noteq> '''' then CurrentBranch cnf
                                                   else GetCurrentSHA cci),
                                     release = zero_Release,
                                     commits = [],
                                     newVer = zero_Version\<rparr>))))"

text \<open>\<^verbatim>\<open>running CI condition...\<close>\<close>

definition ci_condition :: "locals \<Rightarrow> outcome + locals" where
  "ci_condition l =
     (if \<not> Noci (conf l)
      then (case RunCondition (ci l)
                   \<lparr>cfg_token = Token (conf l), cfg_defaultBranch = defaultBranch l,
                    cfg_private = (isPrivate l \<or> TravisCom (conf l))\<rparr> of
              Some err \<Rightarrow> Inl (exitIfError err [66])
            | None \<Rightarrow> Inr l)
      else Inr l)"

text \<open>The tag filter: \<^verbatim>\<open>matchRegex\<close> stays \<^verbatim>\<open>nil\<close> for an empty \<^verbatim>\<open>match\<close>; the outer
  \<open>None\<close> is the panic of \<^verbatim>\<open>MustCompile\<close>.\<close>

definition compile_match :: "externals \<Rightarrow> Config \<Rightarrow> Regexp option option" where
  "compile_match X cnf =
     (let match = strings_TrimSpace (Match cnf)
      in if match \<noteq> ''''
         then (case regexp_MustCompile X (''^'' @ match) of
                 None \<Rightarrow> None
               | Some matchRegex \<Rightarrow> Some (Some matchRegex))
         else Some None)"

text \<open>\<^verbatim>\<open>getting latest release...\<close>\<close>

definition latest_release :: "World \<Rightarrow> locals \<Rightarrow> outcome + locals" where
  "latest_release w l =
     (case compile_match (externals w) (conf l) of
        None \<Rightarrow> Inl Panicked
      | Some matchRegex \<Rightarrow>
          (let lastVersionHotfix =
                 (if CurrentBranch (conf l) \<noteq> BaseBranch (conf l)
                  then strings_Trim (CurrentBranch (conf l)) (Pkgname (conf l) @ ''-branch-v'')
                  else '''')
           in case GetLatestRelease (repo l) (MaintainedVersion (conf l)) matchRegex
                     (Pkgname (conf l)) lastVersionHotfix of
                None \<Rightarrow> Inl Diverged
              | Some Panic \<Rightarrow> Inl Panicked
              | Some (Err err) \<Rightarrow> Inl (exitIfError err [])
              | Some (Ok rel) \<Rightarrow> Inr (l\<lparr>release := rel\<rparr>)))"

text \<open>The check after \<^verbatim>\<open>found version\<close>.\<close>

definition check_prerelease :: "locals \<Rightarrow> outcome + locals" where
  "check_prerelease l =
     (if strings_Contains (MaintainedVersion (conf l)) ''-''
         \<and> Prerelease (Version (release l)) = ''''
      then Inl (exitIfError (Error ''no pre-release for this version possible'') [])
      else Inr l)"

text \<open>\<^verbatim>\<open>getting commits...\<close>\<close>

definition get_commits :: "locals \<Rightarrow> outcome + locals" where
  "get_commits l =
     (case GetCommits (repo l) (currentSha l) (Pkgname (conf l)) of
        Inl err \<Rightarrow> Inl (exitIfError err [])
      | Inr cs \<Rightarrow> Inr (l\<lparr>commits := cs\<rparr>))"

text \<open>\<^verbatim>\<open>calculating new version...\<close>\<close>

definition new_version :: "World \<Rightarrow> locals \<Rightarrow> outcome + locals" where
  "new_version w l =
     (case GetNewVersion (externals w) (conf l) (commits l) (release l) of
        Some v \<Rightarrow> Inr (l\<lparr>newVer := v\<rparr>)
      | None \<Rightarrow>
          if CurrentBranch (conf l) \<noteq> BaseBranch (conf l)
          then Inr (l\<lparr>newVer := IncPatch (Version (release l))\<rparr>)
          else Inr (l\<lparr>newVer := IncMinor (Version (release l))\<rparr>))"

definition dry_run :: "locals \<Rightarrow> outcome + locals" where
  "dry_run l =
     (if Dry (conf l) then Inl (exitIfError (Error ''DRY RUN: no release was created'') [65])
      else Inr l)"

text \<open>The loop that looks for the configured commit hash: the SHA for the release and
  \<^verbatim>\<open>foundCommit\<close>.\<close>

definition anchor :: "Commit list \<Rightarrow> string \<Rightarrow> string \<times> bool" where
  "anchor cs hash =
     (case cs of
        [] \<Rightarrow> ('''', False)
      | c0 # _ \<Rightarrow>
          foldl (\<lambda>(sha0, foundCommit) j.
                   if Commit.SHA j = hash then (Commit.SHA j, True) else (sha0, foundCommit))
                (Commit.SHA c0, False) cs)"

text \<open>After \<^verbatim>\<open>CreateRelease\<close>: the files \<^verbatim>\<open>.ghr\<close> and \<^verbatim>\<open>.version\<close> and the update of a
  version file, each when configured.\<close>

definition write_update :: "World \<Rightarrow> locals \<Rightarrow> event list \<Rightarrow> outcome \<times> event list" where
  "write_update w l evs =
     (if Update (conf l) \<noteq> ''''
      then (case update_Apply w (Update (conf l)) (Version_String (newVer l)) of
              Some err \<Rightarrow> (exitIfError err [], evs @ [UpdateApply (Update (conf l)) (Version_String (newVer l))])
            | None \<Rightarrow> (Returned, evs @ [UpdateApply (Update (conf l)) (Version_String (newVer l))]))
      else (Returned, evs))"

definition write_version :: "World \<Rightarrow> locals \<Rightarrow> event list \<Rightarrow> outcome \<times> event list" where
  "write_version w l evs =
     (if Vf (conf l)
      then (case ioutil_WriteFile w ''.version'' (Version_String (newVer l)) of
              Some err \<Rightarrow> (exitIfError err [], evs @ [WriteFile ''.version'' (Version_String (newVer l))])
            | None \<Rightarrow> write_update w l (evs @ [WriteFile ''.version'' (Version_String (newVer l))]))
      else write_update w l evs)"

definition write_ghr :: "World \<Rightarrow> locals \<Rightarrow> event list \<Rightarrow> outcome \<times> event list" where
  "write_ghr w l evs =
     (if Ghr (conf l)
      then (let content = ''-u '' @ Owner (repo l) @ '' -r '' @ Repo (repo l) @ '' v''
                       @ Version_String (newVer l)
            in case ioutil_WriteFile w ''.ghr'' content of
                 Some err \<Rightarrow> (exitIfError err [], evs @ [WriteFile ''.ghr'' content])
               | None \<Rightarrow> write_version w l (evs @ [WriteFile ''.ghr'' content]))
      else write_version w l evs)"

text \<open>\<^verbatim>\<open>generating changelog...\<close>: the changelog file is written when a path is configured.\<close>

definition write_changelog :: "World \<Rightarrow> locals \<Rightarrow> error option \<times> event list" where
  "write_changelog w l =
     (let changelog = GetChangelog (externals w) (commits l) (release l) (newVer l)
      in if Changelog (conf l) \<noteq> ''''
         then (ioutil_WriteFile w (Changelog (conf l)) changelog,
               [WriteFile (Changelog (conf l)) changelog])
         else (None, []))"

text \<open>From \<^verbatim>\<open>generating changelog...\<close> to the end.\<close>

definition publish :: "World \<Rightarrow> locals \<Rightarrow> outcome \<times> event list" where
  "publish w l =
     (let changelog = GetChangelog (externals w) (commits l) (release l) (newVer l)
      in case write_changelog w l of
           (Some err, evs) \<Rightarrow> (exitIfError err [], evs)
         | (None, evs) \<Rightarrow>
             (case anchor (commits l) (CommitHash (conf l)) of
                (sha0, foundCommit) \<Rightarrow>
                  if foundCommit = False
                  then (exitIfError (Error ''Commit not found'') [65], evs)
                  else (case CreateRelease (repo l) changelog (newVer l) (Prerelease_flag (conf l))
                               (currentBranch l) (currentSha l) sha0 (Pkgname (conf l)) of
                          (Some err, evs') \<Rightarrow> (exitIfError err [], evs @ evs')
                        | (None, evs') \<Rightarrow> write_ghr w l (evs @ evs'))))"

text \<open>The steps in sequence: the first one that ends the run ends the sequence.\<close>

definition andThen :: "outcome + 'a \<Rightarrow> ('a \<Rightarrow> outcome + 'b) \<Rightarrow> outcome + 'b" where
  "andThen m f = (case m of Inl out \<Rightarrow> Inl out | Inr x \<Rightarrow> f x)"

definition upto_release :: "World \<Rightarrow> outcome + locals" where
  "upto_release w = andThen (andThen (startup w) ci_condition) (latest_release w)"

definition upto_commits :: "World \<Rightarrow> outcome + locals" where
  "upto_commits w = andThen (andThen (upto_release w) check_prerelease) get_commits"

definition resolve :: "World \<Rightarrow> outcome + locals" where
  "resolve w = andThen (andThen (upto_commits w) (new_version w)) dry_run"

definition cliHandler :: "World \<Rightarrow> outcome \<times> event list" where
  "cliHandler w = (case resolve w of Inl out \<Rightarrow> (out, []) | Inr l \<Rightarrow> publish w l)"

section \<open>A concrete environment for the examples\<close>

text \<open>
  The statements below hold for every value of the parameters. Their instances at
  concrete inputs need concrete parameters; the ones here follow the commit grammar
  \<^verbatim>\<open>type(scope): subject\<close> with optional scope and optional \<^verbatim>\<open>!\<close>, the breaking markers
  \<^verbatim>\<open>BREAKING CHANGE\<close> and \<^verbatim>\<open>!:\<close>, versions written \<^verbatim>\<open>vN.N.N\<close>, tag filters that are
  alternatives of literal text separated by \<^verbatim>\<open>|\<close>, each anchored at the start of the tag
  when it begins with \<^verbatim>\<open>^\<close> and found anywhere in the tag otherwise, selection of the
  greatest version (the zero release for no candidate), the version resolver of the
  specification, and a pre-release numbering that appends \<^verbatim>\<open>.1\<close>.
\<close>

definition is_word :: "char \<Rightarrow> bool" where
  "is_word c = (c \<in> set ''abcdefghijklmnopqrstuvwxyzABCDEFGHIJKLMNOPQRSTUVWXYZ0123456789_'')"

definition example_commitPattern :: "string \<Rightarrow> (string \<times> string \<times> string) list" where
  "example_commitPattern line =
     (let ty = takeWhile is_word line;
          r = dropWhile is_word line;
          (sc, r1) = (case r of
                        CHR ''('' # r' \<Rightarrow> (takeWhile (\<lambda>c. c \<noteq> CHR '')'') r',
                                          drop 1 (dropWhile (\<lambda>c. c \<noteq> CHR '')'') r'))
                      | _ \<Rightarrow> ('''', r));
          r2 = strings_TrimPrefix r1 ''!''
      in if CHR 0x0A \<notin> set line \<and> strings_HasPrefix r2 '': '' then [(ty, sc, drop 2 r2)] else [])"

definition example_breakingPattern :: "string \<Rightarrow> bool" where
  "example_breakingPattern msg =
     (strings_Contains msg ''BREAKING CHANGE'' \<or> strings_Contains msg ''!: '')"

fun parse_digits :: "nat \<Rightarrow> string \<Rightarrow> nat option" where
  "parse_digits acc [] = Some acc"
| "parse_digits acc (c # cs) =
     (case map_of (zip ''0123456789'' [0, 1, 2, 3, 4, 5, 6, 7, 8, 9]) c of
        None \<Rightarrow> None
      | Some d \<Rightarrow> parse_digits (10 * acc + d) cs)"

definition parse_number :: "string \<Rightarrow> nat option" where
  "parse_number s = (if s = '''' then None else parse_digits 0 s)"

definition example_NewVersion :: "string \<Rightarrow> error + Version" where
  "example_NewVersion s =
     (case map parse_number (strings_Split (strings_TrimPrefix s ''v'') CHR ''.'') of
        [Some a, Some b, Some c] \<Rightarrow>
          Inr \<lparr>major = of_nat a, minor = of_nat b, patch = of_nat c,
               pre = '''', metadata = '''', original = s\<rparr>
      | _ \<Rightarrow> Inl (Error ''Invalid Semantic Version''))"

definition example_alternative :: "string \<Rightarrow> string \<Rightarrow> bool" where
  "example_alternative b s =
     (case b of
        CHR ''^'' # lit \<Rightarrow> strings_HasPrefix s lit
      | _ \<Rightarrow> strings_Contains s b)"

definition example_match :: "string \<Rightarrow> Regexp" where
  "example_match p s = list_ex (\<lambda>b. example_alternative b s) (strings_Split p CHR ''|'')"

definition example_MustCompile :: "string \<Rightarrow> Regexp option" where
  "example_MustCompile p = Some (example_match p)"

definition version_less :: "Version \<Rightarrow> Version \<Rightarrow> bool" where
  "version_less a b =
     (sint (major a) < sint (major b)
      \<or> (major a = major b
          \<and> (sint (minor a) < sint (minor b)
              \<or> (minor a = minor b \<and> sint (patch a) < sint (patch b)))))"

definition example_GetLatestRelease :: "Release list \<Rightarrow> string \<Rightarrow> string \<Rightarrow> error + Release" where
  "example_GetLatestRelease rs vrange lastVersionHotfix =
     (case rs of
        [] \<Rightarrow> Inr zero_Release
      | r # rest \<Rightarrow>
          Inr (foldl (\<lambda>best x. if version_less (Version best) (Version x) then x else best) r rest))"

definition example_next_prerelease :: "Version \<Rightarrow> Version" where
  "example_next_prerelease v =
     (let vNext = v\<lparr>metadata := '''', pre := pre v @ ''.1''\<rparr>
      in vNext\<lparr>original := originalVPrefix v @ Version_String vNext\<rparr>)"

definition example_GetChangelog :: "Commit list \<Rightarrow> Release \<Rightarrow> Version \<Rightarrow> string" where
  "example_GetChangelog cs rel v =
     ''## '' @ Version_String v
     @ concat (map (\<lambda>c. [CHR 0x0A] @ ''* '' @ Type c @ '': '' @ Message c)
                   (filter (\<lambda>c. Type c \<noteq> '''') cs))"

definition example_externals :: externals where
  "example_externals =
     \<lparr>commitPattern = example_commitPattern,
      breakingPattern = example_breakingPattern,
      semver_NewVersion = example_NewVersion,
      regexp_MustCompile = example_MustCompile,
      Releases_GetLatestRelease = example_GetLatestRelease,
      GetNewVersion = GetNewVersion_spec example_next_prerelease,
      GetChangelog = example_GetChangelog\<rparr>"

text \<open>A repository with two release tags of package \<^verbatim>\<open>pkgA\<close>, one of another package, and
  a tag that is no version; every request succeeds.\<close>

definition example_refs :: "Reference list" where
  "example_refs =
     [\<lparr>GetRef = ''refs/tags/pkgA-release-v1.0.0'', Object_GetType = ''commit'', Object_GetSHA = ''a100''\<rparr>,
      \<lparr>GetRef = ''refs/tags/pkgA-release-v1.0.1'', Object_GetType = ''commit'', Object_GetSHA = ''a101''\<rparr>,
      \<lparr>GetRef = ''refs/tags/pkgB-release-v3.0.0'', Object_GetType = ''commit'', Object_GetSHA = ''b300''\<rparr>,
      \<lparr>GetRef = ''refs/tags/nightly'', Object_GetType = ''commit'', Object_GetSHA = ''ffff''\<rparr>]"

definition example_commits :: "RepositoryCommit list" where
  "example_commits =
     [\<lparr>GetSHA = ''c0ffee2'', GetMessage = ''docs: typo''\<rparr>,
      \<lparr>GetSHA = ''c0ffee1'', GetMessage = ''chore(pkgA): update deps''\<rparr>]"

definition example_Client :: Client where
  "example_Client =
     \<lparr>Repositories_Get = ((''master'', False), None),
      Repositories_ListCommits = (\<lambda>sha. (example_commits, None)),
      Git_ListRefs = (\<lambda>page. (example_refs, Some \<lparr>StatusCode = 200, NextPage = 0\<rparr>, None)),
      Git_CreateRef = (\<lambda>ref sha. None),
      Repositories_CreateRelease = (\<lambda>opts. None)\<rparr>"

definition example_Config :: Config where
  "example_Config =
     \<lparr>Token = ''t0ken'', Slug = ''acme/mono'', Changelog = '''', Ghr = False, Noci = True,
      Dry = False, Vf = False, Update = '''', GheHost = '''', Prerelease_flag = False,
      TravisCom = False, MaintainedVersion = '''', Match = ''v'', GitLab = False,
      GitLabBaseURL = '''', GitLabProjectID = '''', CurrentBranch = ''master'',
      BaseBranch = ''master'', Pkgname = ''pkgA'', CommitHash = ''c0ffee1''\<rparr>"

definition example_World_with :: "Config \<Rightarrow> Client \<Rightarrow> World" where
  "example_World_with cnf cl =
     \<lparr>externals = example_externals,
      config_NewConfig = Inr cnf,
      condition_NewCI = \<lparr>GetCurrentBranch = ''master'', GetCurrentSHA = ''c0ffee2'',
                         RunCondition = (\<lambda>c. None)\<rparr>,
      semrel_NewGitLabRepository = (\<lambda>baseURL slug token branch projectID. Inl (Error ''no GitLab'')),
      github_NewClient = (\<lambda>token. cl),
      github_NewEnterpriseClient = (\<lambda>url token. Inl (Error ''no enterprise host'')),
      os_Getenv = (\<lambda>name. ''''),
      ioutil_WriteFile = (\<lambda>path content. None),
      update_Apply = (\<lambda>file version. None)\<rparr>"

text \<open>The same repository with no commit to list, and an empty repository, whose tag
  listing is answered with status 404.\<close>

definition example_Client_no_commits :: Client where
  "example_Client_no_commits = example_Client\<lparr>Repositories_ListCommits := (\<lambda>sha. ([], None))\<rparr>"

definition example_Client_no_tags :: Client where
  "example_Client_no_tags =
     example_Client\<lparr>Git_ListRefs :=
       (\<lambda>page. ([], Some \<lparr>StatusCode = 404, NextPage = 0\<rparr>, Some (Error ''404 Not Found'')))\<rparr>"

text \<open>The same repository with \<^verbatim>\<open>main\<close> as its default branch.\<close>

definition example_Client_main :: Client where
  "example_Client_main = example_Client\<lparr>Repositories_Get := ((''main'', False), None)\<rparr>"

section \<open>Auxiliary facts\<close>

lemma split_acc_not_Nil: "split_acc sep cur s \<noteq> []"
  by (induction s arbitrary: cur) auto

lemma strings_Split_not_Nil: "strings_Split s sep \<noteq> []"
  by (simp add: strings_Split_def split_acc_not_Nil)

lemma strings_HasPrefix_Contains: "strings_HasPrefix s p \<Longrightarrow> strings_Contains s p"
  by (cases s; cases p) auto

lemma not_isl_Inr: "\<not> isl s \<Longrightarrow> s = Inr (projr s)"
  by (cases s) auto

text \<open>The loop over the commits finds the configured hash exactly when a commit has it.\<close>

lemma foldl_anchor:
  "foldl (\<lambda>(sha0, foundCommit) j.
            if Commit.SHA j = h then (Commit.SHA j, True) else (sha0, foundCommit)) (s, f) cs
   = (if h \<in> Commit.SHA ` set cs then (h, True) else (s, f))"
  by (induction cs arbitrary: s f) auto

lemma anchor_eq:
  "anchor cs h = (if h \<in> Commit.SHA ` set cs then (h, True)
                  else (case cs of [] \<Rightarrow> '''' | c0 # _ \<Rightarrow> Commit.SHA c0, False))"
  by (cases cs) (simp_all add: anchor_def foldl_anchor del: foldl.simps foldl_Cons)

text \<open>The three ways through \<open>publish\<close> up to the call of \<open>CreateRelease\<close>.\<close>

lemma publish_write_failed:
  "write_changelog w l = (Some err, evs) \<Longrightarrow> publish w l = (Exited 1 err, evs)"
  by (simp add: publish_def exitIfError_def)

lemma publish_not_found:
  "write_changelog w l = (None, evs) \<Longrightarrow> CommitHash (conf l) \<notin> Commit.SHA ` set (commits l)
   \<Longrightarrow> publish w l = (Exited 65 (Error ''Commit not found''), evs)"
  by (simp add: publish_def anchor_eq exitIfError_def)

lemma publish_found:
  "write_changelog w l = (None, evs) \<Longrightarrow> CommitHash (conf l) \<in> Commit.SHA ` set (commits l)
   \<Longrightarrow> publish w l =
       (case CreateRelease (repo l) (GetChangelog (externals w) (commits l) (release l) (newVer l))
               (newVer l) (Prerelease_flag (conf l)) (currentBranch l) (currentSha l)
               (CommitHash (conf l)) (Pkgname (conf l)) of
          (Some err, evs') \<Rightarrow> (Exited 1 err, evs @ evs')
        | (None, evs') \<Rightarrow> write_ghr w l (evs @ evs'))"
  by (simp add: publish_def anchor_eq exitIfError_def Let_def split: prod.splits option.splits)

text \<open>Exit code 65 after the dry-run gate belongs to the missing commit alone.\<close>

lemma write_update_code: "fst (write_update w l evs) \<noteq> Exited 65 e"
  by (simp add: write_update_def exitIfError_def split: option.splits)

lemma write_version_code: "fst (write_version w l evs) \<noteq> Exited 65 e"
  by (simp add: write_version_def exitIfError_def write_update_code split: option.splits)

lemma write_ghr_code: "fst (write_ghr w l evs) \<noteq> Exited 65 e"
  by (simp add: write_ghr_def exitIfError_def write_version_code Let_def split: option.splits)

lemma publish_found_code:
  assumes "write_changelog w l = (None, evs)"
      and "CommitHash (conf l) \<in> Commit.SHA ` set (commits l)"
  shows "fst (publish w l) \<noteq> Exited 65 e"
  using write_ghr_code by (simp add: publish_found [OF assms] split: prod.splits option.splits)

lemma resolve_Inl: "resolve w = Inl out \<Longrightarrow> cliHandler w = (out, [])"
  by (simp add: cliHandler_def)

lemma resolve_Inr: "resolve w = Inr l \<Longrightarrow> cliHandler w = publish w l"
  by (simp add: cliHandler_def)

lemma write_changelog_events:
  "snd (write_changelog w l) =
     (if Changelog (conf l) \<noteq> ''''
      then [WriteFile (Changelog (conf l))
              (GetChangelog (externals w) (commits l) (release l) (newVer l))]
      else [])"
  by (simp add: write_changelog_def Let_def)

section \<open>Side effects of a failed run\<close>

text \<open>
  Claim C1 says that a run that fails, whatever the error, the missing anchor commit
  included, has created no release and no tag and has written no changelog file. The
  program writes the changelog file before it looks for the anchor commit: with a
  changelog path configured and a commit hash that no fetched commit has, the run exits
  with \<^verbatim>\<open>Commit not found\<close> after the file has been written.
\<close>

theorem changelog_written_counterexample:
  "cliHandler (example_World_with
       (example_Config\<lparr>Changelog := ''CHANGELOG.md'', CommitHash := ''deadbeef''\<rparr>) example_Client)
   = (Exited 65 (Error ''Commit not found''),
      [WriteFile ''CHANGELOG.md'' (''## 1.1.0'' @ [CHR 0x0A] @ ''* chore: update deps'')])"
  by code_simp

text \<open>
  Claim C1, amended: a run that ends at or before the dry-run gate has issued no request
  and written no file; a run that passes the gate and finds no commit with the configured
  hash exits with an error, has created no tag, release or branch, and has written the
  changelog file, and nothing else, exactly when a changelog path is configured.
\<close>

theorem failed_resolution_effects:
  "(\<forall>out. resolve w = Inl out \<longrightarrow> cliHandler w = (out, []))
   \<and> (\<forall>l. resolve w = Inr l \<and> CommitHash (conf l) \<notin> Commit.SHA ` set (commits l) \<longrightarrow>
          (\<exists>code err. fst (cliHandler w) = Exited code err)
          \<and> snd (cliHandler w) =
              (if Changelog (conf l) \<noteq> ''''
               then [WriteFile (Changelog (conf l))
                       (GetChangelog (externals w) (commits l) (release l) (newVer l))]
               else []))"
proof (intro conjI allI impI)
  fix out assume "resolve w = Inl out"
  then show "cliHandler w = (out, [])" by (rule resolve_Inl)
next
  fix l assume a: "resolve w = Inr l \<and> CommitHash (conf l) \<notin> Commit.SHA ` set (commits l)"
  obtain r evs where wc: "write_changelog w l = (r, evs)" by (cases "write_changelog w l")
  have p: "publish w l = (case r of Some err \<Rightarrow> Exited 1 err
                                   | None \<Rightarrow> Exited 65 (Error ''Commit not found''), evs)"
    using a wc by (cases r) (simp_all add: publish_write_failed publish_not_found)
  from a have c: "cliHandler w = publish w l" by (simp add: resolve_Inr)
  show "\<exists>code err. fst (cliHandler w) = Exited code err"
    using c p by (cases r) auto
  have "snd (cliHandler w) = snd (write_changelog w l)"
    using c p wc by simp
  then show "snd (cliHandler w) =
      (if Changelog (conf l) \<noteq> ''''
       then [WriteFile (Changelog (conf l))
               (GetChangelog (externals w) (commits l) (release l) (newVer l))]
       else [])"
    by (simp add: write_changelog_events)
qed

theorem failed_resolution_effects_witness:
  "resolve (example_World_with (example_Config\<lparr>Dry := True\<rparr>) example_Client)
     = Inl (Exited 65 (Error ''DRY RUN: no release was created''))
   \<and> cliHandler (example_World_with (example_Config\<lparr>Dry := True\<rparr>) example_Client)
     = (Exited 65 (Error ''DRY RUN: no release was created''), [])
   \<and> \<not> isl (resolve (example_World_with (example_Config\<lparr>CommitHash := ''deadbeef''\<rparr>) example_Client))
   \<and> ''deadbeef'' \<notin> Commit.SHA ` set (commits (projr (resolve
         (example_World_with (example_Config\<lparr>CommitHash := ''deadbeef''\<rparr>) example_Client))))
   \<and> cliHandler (example_World_with (example_Config\<lparr>CommitHash := ''deadbeef''\<rparr>) example_Client)
     = (Exited 65 (Error ''Commit not found''), [])"
proof -
  let ?D = "example_World_with (example_Config\<lparr>Dry := True\<rparr>) example_Client"
  let ?W = "example_World_with (example_Config\<lparr>CommitHash := ''deadbeef''\<rparr>) example_Client"
  have "case resolve ?D of Inl out \<Rightarrow> out = Exited 65 (Error ''DRY RUN: no release was created'')
        | Inr l \<Rightarrow> False"
    by code_simp
  then have d: "resolve ?D = Inl (Exited 65 (Error ''DRY RUN: no release was created''))"
    by (cases "resolve ?D") auto
  have n: "\<not> isl (resolve ?W)" by code_simp
  then have r: "resolve ?W = Inr (projr (resolve ?W))" by (rule not_isl_Inr)
  have h: "CommitHash (conf (projr (resolve ?W))) = ''deadbeef''" by code_simp
  have s: "''deadbeef'' \<notin> Commit.SHA ` set (commits (projr (resolve ?W)))" by code_simp
  have c: "Changelog (conf (projr (resolve ?W))) = ''''" by code_simp
  have f: "fst (cliHandler ?W) = Exited 65 (Error ''Commit not found'')" by code_simp
  from failed_resolution_effects [of ?D] d
  have 1: "cliHandler ?D = (Exited 65 (Error ''DRY RUN: no release was created''), [])" by blast
  from failed_resolution_effects [of ?W] r h s
  have "snd (cliHandler ?W) =
      (if Changelog (conf (projr (resolve ?W))) \<noteq> ''''
       then [WriteFile (Changelog (conf (projr (resolve ?W))))
               (GetChangelog (externals ?W) (commits (projr (resolve ?W)))
                  (release (projr (resolve ?W))) (newVer (projr (resolve ?W))))]
       else [])"
    by metis
  with c have 2: "snd (cliHandler ?W) = []" by simp
  from f 2 have 3: "cliHandler ?W = (Exited 65 (Error ''Commit not found''), [])"
    by (cases "cliHandler ?W") simp
  from d 1 n s 3 show ?thesis by blast
qed

section \<open>Classification of a commit\<close>

text \<open>
  Claim C2 says that a commit whose subject line matches the pattern with a scope equal
  to the configured package scope is classified. The program classifies only under a
  package scope that is not empty: with no scope configured, a subject without a scope
  matches the pattern with the empty scope, equal to the configured one, and the commit
  stays unclassified.
\<close>

theorem empty_scope_counterexample:
  "commitPattern example_externals ''feat: add export'' = [(''feat'', '''', ''add export'')]
   \<and> Type (parseGithubCommit example_externals
              \<lparr>GetSHA = ''c0ffee3'', GetMessage = ''feat: add export''\<rparr> '''') = ''''
   \<and> Minor (Change (parseGithubCommit example_externals
              \<lparr>GetSHA = ''c0ffee3'', GetMessage = ''feat: add export''\<rparr> '''')) = False"
  by code_simp

text \<open>
  Claim C2, amended: for every commit message whose subject line matches the pattern
  with a scope equal to the configured package scope, and that scope is not empty,
  classification stores the type in lower case, the scope and the subject, and sets
  minor exactly when the stored type is \<^verbatim>\<open>feat\<close>, patch exactly when it is \<^verbatim>\<open>fix\<close>, and
  major exactly when the breaking pattern matches the whole message.
\<close>

theorem parseGithubCommit_scoped:
  assumes "strings_Split (GetMessage commit) CHR 0x0A = line0 # rest"
      and "commitPattern X line0 = (ty, sc, subj) # others"
      and "pkg \<noteq> ''''"
      and "sc = pkg"
  shows "Type (parseGithubCommit X commit pkg) = strings_ToLower ty
       \<and> Scope (parseGithubCommit X commit pkg) = pkg
       \<and> Message (parseGithubCommit X commit pkg) = subj
       \<and> Minor (Change (parseGithubCommit X commit pkg))
           = (Type (parseGithubCommit X commit pkg) = ''feat'')
       \<and> Patch (Change (parseGithubCommit X commit pkg))
           = (Type (parseGithubCommit X commit pkg) = ''fix'')
       \<and> Major (Change (parseGithubCommit X commit pkg))
           = breakingPattern X (GetMessage commit)"
  using assms by (simp add: parseGithubCommit_def Let_def)

text \<open>A plain \<^verbatim>\<open>Feat\<close> commit of the package: type \<^verbatim>\<open>feat\<close>, minor and nothing else.\<close>

theorem parseGithubCommit_scoped_witness:
  "strings_Split ''Feat(pkgA): add export'' CHR 0x0A = [''Feat(pkgA): add export'']
   \<and> commitPattern example_externals ''Feat(pkgA): add export'' = [(''Feat'', ''pkgA'', ''add export'')]
   \<and> breakingPattern example_externals ''Feat(pkgA): add export'' = False
   \<and> Type (parseGithubCommit example_externals
              \<lparr>GetSHA = ''c0ffee4'', GetMessage = ''Feat(pkgA): add export''\<rparr> ''pkgA'') = ''feat''
   \<and> Minor (Change (parseGithubCommit example_externals
              \<lparr>GetSHA = ''c0ffee4'', GetMessage = ''Feat(pkgA): add export''\<rparr> ''pkgA'')) = True
   \<and> Patch (Change (parseGithubCommit example_externals
              \<lparr>GetSHA = ''c0ffee4'', GetMessage = ''Feat(pkgA): add export''\<rparr> ''pkgA'')) = False
   \<and> Major (Change (parseGithubCommit example_externals
              \<lparr>GetSHA = ''c0ffee4'', GetMessage = ''Feat(pkgA): add export''\<rparr> ''pkgA'')) = False"
proof -
  let ?c = "\<lparr>GetSHA = ''c0ffee4'', GetMessage = ''Feat(pkgA): add export''\<rparr>"
  have s: "strings_Split (GetMessage ?c) CHR 0x0A = ''Feat(pkgA): add export'' # []"
    by code_simp
  have m: "commitPattern example_externals ''Feat(pkgA): add export''
           = (''Feat'', ''pkgA'', ''add export'') # []"
    by code_simp
  have p: "''pkgA'' \<noteq> ''''" by simp
  have b: "breakingPattern example_externals ''Feat(pkgA): add export'' = False" by code_simp
  have l: "strings_ToLower ''Feat'' = ''feat''" by code_simp
  from parseGithubCommit_scoped [OF s m p refl] b l s m show ?thesis by simp
qed

text \<open>
  Claim C9: with the empty package scope, classification leaves every commit
  unclassified, whatever its subject line: type, scope and subject are empty and no
  change flag is set.
\<close>

theorem parseGithubCommit_no_scope:
  "Type (parseGithubCommit X commit '''') = ''''
   \<and> Scope (parseGithubCommit X commit '''') = ''''
   \<and> Message (parseGithubCommit X commit '''') = ''''
   \<and> Major (Change (parseGithubCommit X commit '''')) = False
   \<and> Minor (Change (parseGithubCommit X commit '''')) = False
   \<and> Patch (Change (parseGithubCommit X commit '''')) = False"
  by (simp add: parseGithubCommit_def new_Commit_def Let_def split: list.splits prod.splits)

text \<open>A \<^verbatim>\<open>fix\<close> commit whose subject matches the pattern, under the empty package scope.\<close>

theorem parseGithubCommit_no_scope_witness:
  "commitPattern example_externals ''fix(pkgA): null check'' = [(''fix'', ''pkgA'', ''null check'')]
   \<and> Type (parseGithubCommit example_externals
              \<lparr>GetSHA = ''c0ffee5'', GetMessage = ''fix(pkgA): null check''\<rparr> '''') = ''''
   \<and> Patch (Change (parseGithubCommit example_externals
              \<lparr>GetSHA = ''c0ffee5'', GetMessage = ''fix(pkgA): null check''\<rparr> '''')) = False"
proof -
  have "commitPattern example_externals ''fix(pkgA): null check'' = [(''fix'', ''pkgA'', ''null check'')]"
    by code_simp
  with parseGithubCommit_no_scope
         [of example_externals "\<lparr>GetSHA = ''c0ffee5'', GetMessage = ''fix(pkgA): null check''\<rparr>"]
  show ?thesis by simp
qed

section \<open>Selection of the previous release\<close>

text \<open>
  Claim C5: when the tag listing is answered with status 404, \<^verbatim>\<open>GetLatestRelease\<close>
  returns the zero release, with the empty SHA and the version 0.0.0, and no error,
  whatever error the request itself reports.
\<close>

theorem no_tags_zero_release:
  assumes "Git_ListRefs (Client gh) 0 = (refs, Some rs, err)"
      and "StatusCode rs = 404"
  shows "GitHub_GetLatestRelease X gh vrange re pkg_name lastVersionHotfix
           = Some (Ok \<lparr>Release.SHA = '''', Version = zero_Version\<rparr>)
         \<and> Version_String zero_Version = ''0.0.0''"
proof
  have "list_all_refs X (Client gh) re pkg_name 0 [] = Some (Ok (Inr zero_Release))"
    using assms by (subst list_all_refs.simps) simp
  then show "GitHub_GetLatestRelease X gh vrange re pkg_name lastVersionHotfix
           = Some (Ok \<lparr>Release.SHA = '''', Version = zero_Version\<rparr>)"
    by (simp add: GitHub_GetLatestRelease_def zero_Release_def)
  show "Version_String zero_Version = ''0.0.0''"
    by (simp add: Version_String_def zero_Version_def show_int64_def show_nat.simps)
qed

text \<open>An empty repository: the first page of the listing has status 404 and an error.\<close>

theorem no_tags_zero_release_witness:
  "Git_ListRefs example_Client_no_tags 0
     = ([], Some \<lparr>StatusCode = 404, NextPage = 0\<rparr>, Some (Error ''404 Not Found''))
   \<and> GitHub_GetLatestRelease example_externals
        \<lparr>owner = ''acme'', repo = ''mono'', Client = example_Client_no_tags\<rparr> '''' None ''pkgA'' ''''
     = Some (Ok \<lparr>Release.SHA = '''', Version = zero_Version\<rparr>)"
proof -
  let ?gh = "\<lparr>owner = ''acme'', repo = ''mono'', Client = example_Client_no_tags\<rparr>"
  have a: "Git_ListRefs (Client ?gh) 0
     = ([], Some \<lparr>StatusCode = 404, NextPage = 0\<rparr>, Some (Error ''404 Not Found''))"
    by (simp add: example_Client_no_tags_def)
  have b: "StatusCode \<lparr>StatusCode = 404, NextPage = 0\<rparr> = 404" by simp
  from no_tags_zero_release [OF a b] a show ?thesis by simp
qed

text \<open>
  Claim C4 says that, for every candidate tag, the prefix \<^verbatim>\<open><packageScope>-release-\<close> is
  stripped, that a candidate whose stripped tag does not match the configured filter
  anchored at the start is discarded, and that a tag that is no semantic version is
  discarded without an error. The program compiles the configured expression behind
  \<^verbatim>\<open>^\<close> and does not group it, and Go's regular expressions read \<^verbatim>\<open>^v2|1\<close> as the two
  alternatives \<^verbatim>\<open>^v2\<close> and \<^verbatim>\<open>1\<close>: the anchor holds for the first alternative only. The
  run on the example repository with the filter \<^verbatim>\<open>v2|1\<close>: the stripped tag \<^verbatim>\<open>v1.0.1\<close> begins
  with neither \<^verbatim>\<open>v2\<close> nor \<^verbatim>\<open>1\<close>, passes the compiled filter by its second alternative, and
  is selected as the previous release.
\<close>

theorem alternation_filter_evaluation:
  "strings_TrimSpace ''v2|1'' = ''v2|1''
   \<and> candidate_tag ''pkgA'' \<lparr>GetRef = ''refs/tags/pkgA-release-v1.0.1'', Object_GetType = ''commit'',
                             Object_GetSHA = ''a101''\<rparr> = ''v1.0.1''
   \<and> strings_HasPrefix ''v1.0.1'' ''v2'' = False
   \<and> strings_HasPrefix ''v1.0.1'' ''1'' = False
   \<and> example_match ''^v2|1'' ''v1.0.1'' = True
   \<and> isl (upto_release (example_World_with (example_Config\<lparr>Match := ''v2|1''\<rparr>) example_Client))
       = False
   \<and> release (projr (upto_release
         (example_World_with (example_Config\<lparr>Match := ''v2|1''\<rparr>) example_Client)))
       = \<lparr>Release.SHA = ''a101'',
          Version = \<lparr>major = 1, minor = 0, patch = 1, pre = '''', metadata = '''',
                     original = ''v1.0.1''\<rparr>\<rparr>"
  by code_simp

section \<open>Creation of the release\<close>

text \<open>
  Claim C8 says that a release from the repository's default branch creates the branch
  reference and a release from another branch does not. \<^verbatim>\<open>CreateRelease\<close> compares the
  branch with the literal \<^verbatim>\<open>master\<close>: in a repository whose default branch is \<^verbatim>\<open>main\<close>, a
  successful release from \<^verbatim>\<open>main\<close> creates the tag and the release object and no branch
  reference.
\<close>

theorem default_branch_main_counterexample:
  "defaultBranch (projr (resolve (example_World_with
        (example_Config\<lparr>CurrentBranch := ''main'', BaseBranch := ''main''\<rparr>) example_Client_main)))
     = ''main''
   \<and> currentBranch (projr (resolve (example_World_with
        (example_Config\<lparr>CurrentBranch := ''main'', BaseBranch := ''main''\<rparr>) example_Client_main)))
     = ''main''
   \<and> cliHandler (example_World_with
        (example_Config\<lparr>CurrentBranch := ''main'', BaseBranch := ''main''\<rparr>) example_Client_main)
     = (Returned,
        [CreateRef ''refs/tags/pkgA-release-v1.1.0'' ''c0ffee1'',
         CreateReleaseObject
           \<lparr>TagName = ''pkgA-release-v1.1.0'', Name = ''pkgA-release-v1.1.0'',
            TargetCommitish = ''c0ffee1'',
            Body = ''## 1.1.0'' @ [CHR 0x0A] @ ''* chore: update deps'',
            Prerelease_opt = False\<rparr>])"
  by code_simp

text \<open>
  Claim C8, amended: every successful \<^verbatim>\<open>CreateRelease\<close> of the GitHub provider requests
  the tag reference \<^verbatim>\<open><packageScope>-release-v<version>\<close> and the release object, and
  after them the branch reference \<^verbatim>\<open><packageScope>-branch-v<version>\<close> exactly when the
  branch it is given is named \<^verbatim>\<open>master\<close>; for any other branch name it requests no branch
  reference.
\<close>

theorem branch_reference_master:
  assumes "GitHub_CreateRelease gh changelog newVersion prerelease branch sha currentSHA pkgName
             = (None, evs)"
  shows "evs = [CreateRef (''refs/tags/'' @ pkgName @ ''-release-v'' @ Version_String newVersion)
                  currentSHA,
                CreateReleaseObject
                  \<lparr>TagName = pkgName @ ''-release-v'' @ Version_String newVersion,
                   Name = pkgName @ ''-release-v'' @ Version_String newVersion,
                   TargetCommitish = currentSHA, Body = changelog,
                   Prerelease_opt = (prerelease \<or> Prerelease newVersion \<noteq> '''')\<rparr>]
               @ (if branch = ''master''
                  then [CreateRef (''refs/heads/'' @ pkgName @ ''-branch-v'' @ Version_String newVersion)
                          currentSHA]
                  else [])"
  using assms by (auto simp: GitHub_CreateRelease_def Let_def split: option.splits if_splits)

text \<open>The same release from \<^verbatim>\<open>master\<close> and from \<^verbatim>\<open>main\<close>.\<close>

theorem branch_reference_master_witness:
  "GitHub_CreateRelease \<lparr>owner = ''acme'', repo = ''mono'', Client = example_Client\<rparr> ''notes''
      \<lparr>major = 1, minor = 1, patch = 0, pre = '''', metadata = '''', original = ''v1.1.0''\<rparr>
      False ''master'' ''c0ffee2'' ''c0ffee1'' ''pkgA''
     = (None,
        [CreateRef ''refs/tags/pkgA-release-v1.1.0'' ''c0ffee1'',
         CreateReleaseObject
           \<lparr>TagName = ''pkgA-release-v1.1.0'', Name = ''pkgA-release-v1.1.0'',
            TargetCommitish = ''c0ffee1'', Body = ''notes'', Prerelease_opt = False\<rparr>,
         CreateRef ''refs/heads/pkgA-branch-v1.1.0'' ''c0ffee1''])
   \<and> GitHub_CreateRelease \<lparr>owner = ''acme'', repo = ''mono'', Client = example_Client\<rparr> ''notes''
      \<lparr>major = 1, minor = 1, patch = 0, pre = '''', metadata = '''', original = ''v1.1.0''\<rparr>
      False ''main'' ''c0ffee2'' ''c0ffee1'' ''pkgA''
     = (None,
        [CreateRef ''refs/tags/pkgA-release-v1.1.0'' ''c0ffee1'',
         CreateReleaseObject
           \<lparr>TagName = ''pkgA-release-v1.1.0'', Name = ''pkgA-release-v1.1.0'',
            TargetCommitish = ''c0ffee1'', Body = ''notes'', Prerelease_opt = False\<rparr>])"
proof -
  let ?gh = "\<lparr>owner = ''acme'', repo = ''mono'', Client = example_Client\<rparr>"
  let ?v = "\<lparr>major = 1, minor = 1, patch = 0, pre = '''', metadata = '''', original = ''v1.1.0''\<rparr>"
  let ?M = "GitHub_CreateRelease ?gh ''notes'' ?v False ''master'' ''c0ffee2'' ''c0ffee1'' ''pkgA''"
  let ?O = "GitHub_CreateRelease ?gh ''notes'' ?v False ''main'' ''c0ffee2'' ''c0ffee1'' ''pkgA''"
  have fM: "fst ?M = None" by code_simp
  have fO: "fst ?O = None" by code_simp
  have vs: "Version_String ?v = ''1.1.0''" by code_simp
  have pr: "Prerelease ?v = ''''" by (simp add: Prerelease_def)
  have aM: "?M = (None, snd ?M)" using fM by (cases ?M) simp
  have aO: "?O = (None, snd ?O)" using fO by (cases ?O) simp
  have eM: "snd ?M = [CreateRef ''refs/tags/pkgA-release-v1.1.0'' ''c0ffee1'',
         CreateReleaseObject
           \<lparr>TagName = ''pkgA-release-v1.1.0'', Name = ''pkgA-release-v1.1.0'',
            TargetCommitish = ''c0ffee1'', Body = ''notes'', Prerelease_opt = False\<rparr>,
         CreateRef ''refs/heads/pkgA-branch-v1.1.0'' ''c0ffee1'']"
    using branch_reference_master [OF aM] vs pr by simp
  have eO: "snd ?O = [CreateRef ''refs/tags/pkgA-release-v1.1.0'' ''c0ffee1'',
         CreateReleaseObject
           \<lparr>TagName = ''pkgA-release-v1.1.0'', Name = ''pkgA-release-v1.1.0'',
            TargetCommitish = ''c0ffee1'', Body = ''notes'', Prerelease_opt = False\<rparr>]"
    using branch_reference_master [OF aO] vs pr by simp
  from aM eM aO eO show ?thesis by simp
qed

section \<open>The fallback bump\<close>

text \<open>The fold of the specification yields no flag exactly when no commit has one.\<close>

lemma foldl_change:
  "foldl (\<lambda>change c. \<lparr>Major = (Major change \<or> Major (Change c)),
                       Minor = (Minor change \<or> Minor (Change c)),
                       Patch = (Patch change \<or> Patch (Change c))\<rparr>) a cs
   = \<lparr>Major = (Major a \<or> (\<exists>c \<in> set cs. Major (Change c))),
      Minor = (Minor a \<or> (\<exists>c \<in> set cs. Minor (Change c))),
      Patch = (Patch a \<or> (\<exists>c \<in> set cs. Patch (Change c)))\<rparr>"
  by (induction cs arbitrary: a) auto

lemma CalculateChange_none:
  "(CalculateChange cs = \<lparr>Major = False, Minor = False, Patch = False\<rparr>)
     = (\<forall>c \<in> set cs. \<not> Major (Change c) \<and> \<not> Minor (Change c) \<and> \<not> Patch (Change c))"
  by (auto simp: CalculateChange_def foldl_change)

text \<open>
  Claim C3 says that, when the folded change flags yield none, the fallback is the minor
  bump on the default line and the patch bump on any other line. The program compares
  the configured current branch with the configured base branch, and neither with the
  branch the run is on nor with the default branch of the repository: a run on the
  default branch \<^verbatim>\<open>master\<close>, with the base branch \<^verbatim>\<open>master\<close> configured and the current
  branch left to the CI service, takes the patch bump from 1.0.1 to 1.0.2.
\<close>

theorem default_branch_patch_counterexample:
  "isl (resolve (example_World_with (example_Config\<lparr>CurrentBranch := ''''\<rparr>)
                   example_Client_no_commits)) = False
   \<and> defaultBranch (projr (resolve (example_World_with (example_Config\<lparr>CurrentBranch := ''''\<rparr>)
                   example_Client_no_commits))) = ''master''
   \<and> currentBranch (projr (resolve (example_World_with (example_Config\<lparr>CurrentBranch := ''''\<rparr>)
                   example_Client_no_commits))) = ''master''
   \<and> commits (projr (resolve (example_World_with (example_Config\<lparr>CurrentBranch := ''''\<rparr>)
                   example_Client_no_commits))) = []
   \<and> Version_String (Version (release (projr (resolve (example_World_with
                   (example_Config\<lparr>CurrentBranch := ''''\<rparr>) example_Client_no_commits)))))
       = ''1.0.1''
   \<and> Version_String (newVer (projr (resolve (example_World_with
                   (example_Config\<lparr>CurrentBranch := ''''\<rparr>) example_Client_no_commits))))
       = ''1.0.2''"
  by code_simp

text \<open>
  Claim C3, amended: for every commit set whose folded change flags yield none, the
  version resolver of the specification returning no version, the run goes on (unless
  it is a dry run, which ends here) with the minor bump of the previous release's
  version when the configured current branch equals the configured base branch, and with
  its patch bump otherwise. The minor bump adds one to the minor number, sets the patch
  number to zero and drops pre-release and metadata; the patch bump drops pre-release
  and metadata and adds one to the patch number of a version that has no pre-release.
\<close>

theorem fallback_bump:
  assumes "upto_commits w = Inr l"
      and "CalculateChange (commits l) = \<lparr>Major = False, Minor = False, Patch = False\<rparr>"
      and "GetNewVersion (externals w) (conf l) (commits l) (release l)
             = GetNewVersion_spec next_prerelease (conf l) (commits l) (release l)"
  shows "resolve w =
           (if Dry (conf l) then Inl (Exited 65 (Error ''DRY RUN: no release was created''))
            else Inr (l\<lparr>newVer := (if CurrentBranch (conf l) = BaseBranch (conf l)
                                    then IncMinor (Version (release l))
                                    else IncPatch (Version (release l)))\<rparr>))
       \<and> major (IncMinor (Version (release l))) = major (Version (release l))
       \<and> minor (IncMinor (Version (release l))) = minor (Version (release l)) + 1
       \<and> patch (IncMinor (Version (release l))) = 0
       \<and> pre (IncMinor (Version (release l))) = ''''
       \<and> metadata (IncMinor (Version (release l))) = ''''
       \<and> major (IncPatch (Version (release l))) = major (Version (release l))
       \<and> minor (IncPatch (Version (release l))) = minor (Version (release l))
       \<and> patch (IncPatch (Version (release l)))
           = (if pre (Version (release l)) = '''' then patch (Version (release l)) + 1
              else patch (Version (release l)))
       \<and> pre (IncPatch (Version (release l))) = ''''
       \<and> metadata (IncPatch (Version (release l))) = ''''"
proof -
  have "GetNewVersion (externals w) (conf l) (commits l) (release l) = None"
    using assms(2,3) by (simp add: GetNewVersion_spec_def)
  with assms(1) show ?thesis
    by (simp add: resolve_def andThen_def new_version_def dry_run_def exitIfError_def
        IncMinor_def IncPatch_def Let_def)
qed

text \<open>No commit at all and the previous release 1.0.1: 1.1.0 with the current branch and the
  base branch both configured as \<^verbatim>\<open>master\<close>, 1.0.2 with the current branch configured as
  \<^verbatim>\<open>pkgA-branch-v1.0.1\<close>.\<close>

theorem fallback_bump_witness:
  "isl (upto_commits (example_World_with example_Config example_Client_no_commits)) = False
   \<and> commits (projr (upto_commits (example_World_with example_Config example_Client_no_commits))) = []
   \<and> CalculateChange [] = \<lparr>Major = False, Minor = False, Patch = False\<rparr>
   \<and> Version_String (Version (release (projr (upto_commits
         (example_World_with example_Config example_Client_no_commits))))) = ''1.0.1''
   \<and> Version_String (newVer (projr (resolve
         (example_World_with example_Config example_Client_no_commits)))) = ''1.1.0''
   \<and> isl (upto_commits (example_World_with
         (example_Config\<lparr>CurrentBranch := ''pkgA-branch-v1.0.1''\<rparr>) example_Client_no_commits))
       = False
   \<and> Version_String (newVer (projr (resolve (example_World_with
         (example_Config\<lparr>CurrentBranch := ''pkgA-branch-v1.0.1''\<rparr>) example_Client_no_commits))))
       = ''1.0.2''"
proof -
  let ?D = "example_World_with example_Config example_Client_no_commits"
  let ?H = "example_World_with (example_Config\<lparr>CurrentBranch := ''pkgA-branch-v1.0.1''\<rparr>)
              example_Client_no_commits"
  have nD: "\<not> isl (upto_commits ?D)" by code_simp
  have nH: "\<not> isl (upto_commits ?H)" by code_simp
  have cD: "commits (projr (upto_commits ?D)) = []" by code_simp
  have cH: "commits (projr (upto_commits ?H)) = []" by code_simp
  have z: "CalculateChange [] = \<lparr>Major = False, Minor = False, Patch = False\<rparr>"
    by (simp add: CalculateChange_def)
  have vD: "Version_String (Version (release (projr (upto_commits ?D)))) = ''1.0.1''" by code_simp
  have gD: "GetNewVersion (externals ?D) (conf (projr (upto_commits ?D)))
              (commits (projr (upto_commits ?D))) (release (projr (upto_commits ?D)))
            = GetNewVersion_spec example_next_prerelease (conf (projr (upto_commits ?D)))
              (commits (projr (upto_commits ?D))) (release (projr (upto_commits ?D)))"
    by (simp add: example_World_with_def example_externals_def)
  have gH: "GetNewVersion (externals ?H) (conf (projr (upto_commits ?H)))
              (commits (projr (upto_commits ?H))) (release (projr (upto_commits ?H)))
            = GetNewVersion_spec example_next_prerelease (conf (projr (upto_commits ?H)))
              (commits (projr (upto_commits ?H))) (release (projr (upto_commits ?H)))"
    by (simp add: example_World_with_def example_externals_def)
  have dD: "Dry (conf (projr (upto_commits ?D))) = False
            \<and> CurrentBranch (conf (projr (upto_commits ?D))) = BaseBranch (conf (projr (upto_commits ?D)))"
    by code_simp
  have dH: "Dry (conf (projr (upto_commits ?H))) = False
            \<and> CurrentBranch (conf (projr (upto_commits ?H))) \<noteq> BaseBranch (conf (projr (upto_commits ?H)))"
    by code_simp
  have iD: "Version_String (IncMinor (Version (release (projr (upto_commits ?D))))) = ''1.1.0''"
    by code_simp
  have iH: "Version_String (IncPatch (Version (release (projr (upto_commits ?H))))) = ''1.0.2''"
    by code_simp
  from z cD have zD: "CalculateChange (commits (projr (upto_commits ?D)))
                        = \<lparr>Major = False, Minor = False, Patch = False\<rparr>" by simp
  from z cH have zH: "CalculateChange (commits (projr (upto_commits ?H)))
                        = \<lparr>Major = False, Minor = False, Patch = False\<rparr>" by simp
  have rD: "Version_String (newVer (projr (resolve ?D))) = ''1.1.0''"
    using fallback_bump [OF not_isl_Inr [OF nD] zD gD] dD iD by simp
  have rH: "Version_String (newVer (projr (resolve ?H))) = ''1.0.2''"
    using fallback_bump [OF not_isl_Inr [OF nH] zH gH] dH iH by simp
  from nD cD z vD rD nH rH show ?thesis by simp
qed

section \<open>The pre-release request\<close>

text \<open>
  Claim C6: when the maintained version contains \<^verbatim>\<open>-\<close> and the selected previous release
  has no pre-release component, the run exits with an error right after the selection:
  no commit is fetched, no version is computed, nothing is written or created.
\<close>

theorem prerelease_request_fails_fast:
  assumes "upto_release w = Inr l"
      and "strings_Contains (MaintainedVersion (conf l)) ''-''"
      and "Prerelease (Version (release l)) = ''''"
  shows "cliHandler w = (Exited 1 (Error ''no pre-release for this version possible''), [])"
proof -
  have "upto_commits w = Inl (Exited 1 (Error ''no pre-release for this version possible''))"
    using assms by (simp add: upto_commits_def andThen_def check_prerelease_def exitIfError_def)
  then have "resolve w = Inl (Exited 1 (Error ''no pre-release for this version possible''))"
    by (simp add: resolve_def andThen_def)
  then show ?thesis by (rule resolve_Inl)
qed

text \<open>The maintained version \<^verbatim>\<open>1.0.x-beta\<close> on the branch \<^verbatim>\<open>beta\<close>, where the selected release
  is 1.0.1.\<close>

theorem prerelease_request_fails_fast_witness:
  "\<not> isl (upto_release (example_World_with
       (example_Config\<lparr>MaintainedVersion := ''1.0.x-beta'', CurrentBranch := ''beta''\<rparr>) example_Client))
   \<and> strings_Contains ''1.0.x-beta'' ''-''
   \<and> Prerelease (Version (release (projr (upto_release (example_World_with
       (example_Config\<lparr>MaintainedVersion := ''1.0.x-beta'', CurrentBranch := ''beta''\<rparr>)
       example_Client))))) = ''''
   \<and> cliHandler (example_World_with
       (example_Config\<lparr>MaintainedVersion := ''1.0.x-beta'', CurrentBranch := ''beta''\<rparr>) example_Client)
     = (Exited 1 (Error ''no pre-release for this version possible''), [])"
proof -
  let ?W = "example_World_with
       (example_Config\<lparr>MaintainedVersion := ''1.0.x-beta'', CurrentBranch := ''beta''\<rparr>) example_Client"
  have n: "\<not> isl (upto_release ?W)" by code_simp
  have m: "MaintainedVersion (conf (projr (upto_release ?W))) = ''1.0.x-beta''" by code_simp
  have c: "strings_Contains ''1.0.x-beta'' ''-''" by code_simp
  have p: "Prerelease (Version (release (projr (upto_release ?W)))) = ''''" by code_simp
  from c m have c': "strings_Contains (MaintainedVersion (conf (projr (upto_release ?W)))) ''-''"
    by simp
  from prerelease_request_fails_fast [OF not_isl_Inr [OF n] c' p] n c p show ?thesis by blast
qed

section \<open>The anchor commit\<close>

text \<open>Every request of the GitHub provider's \<^verbatim>\<open>CreateRelease\<close> carries the SHA it is given.\<close>

lemma GitHub_CreateRelease_sha:
  "(\<forall>ref s. CreateRef ref s \<in> set (snd (GitHub_CreateRelease gh changelog newVersion prerelease
                                          branch sha currentSHA pkgName)) \<longrightarrow> s = currentSHA)
   \<and> (\<forall>opts. CreateReleaseObject opts \<in> set (snd (GitHub_CreateRelease gh changelog newVersion
                                          prerelease branch sha currentSHA pkgName))
         \<longrightarrow> TargetCommitish opts = currentSHA)"
  by (auto simp: GitHub_CreateRelease_def Let_def split: option.splits if_splits)

text \<open>
  Claim C7: in a run that has passed the dry-run gate and the changelog step, a configured
  commit hash that no fetched commit has ends the run with \<^verbatim>\<open>Commit not found\<close> and exit
  code 65, before any request to create a tag or a release; a hash that a fetched commit
  has is the SHA that \<^verbatim>\<open>CreateRelease\<close> is called with, and the GitHub provider puts that
  SHA, and no other, on the references and the release object it requests.
\<close>

theorem anchor_commit_release:
  assumes "resolve w = Inr l"
      and "write_changelog w l = (None, evs)"
  shows "(CommitHash (conf l) \<notin> Commit.SHA ` set (commits l) \<longrightarrow>
            cliHandler w = (Exited 65 (Error ''Commit not found''), evs))
       \<and> (CommitHash (conf l) \<in> Commit.SHA ` set (commits l) \<longrightarrow>
            cliHandler w =
              (case CreateRelease (repo l)
                      (GetChangelog (externals w) (commits l) (release l) (newVer l))
                      (newVer l) (Prerelease_flag (conf l)) (currentBranch l) (currentSha l)
                      (CommitHash (conf l)) (Pkgname (conf l)) of
                 (Some err, evs') \<Rightarrow> (Exited 1 err, evs @ evs')
               | (None, evs') \<Rightarrow> write_ghr w l (evs @ evs')))
       \<and> (\<forall>ref s. CreateRef ref s \<in> set (snd (GitHub_CreateRelease gh changelog newVersion prerelease
                                          branch sha currentSHA pkgName)) \<longrightarrow> s = currentSHA)
       \<and> (\<forall>opts. CreateReleaseObject opts \<in> set (snd (GitHub_CreateRelease gh changelog newVersion
                                          prerelease branch sha currentSHA pkgName))
            \<longrightarrow> TargetCommitish opts = currentSHA)"
  using assms GitHub_CreateRelease_sha [of gh changelog newVersion prerelease branch sha currentSHA pkgName]
  by (simp add: resolve_Inr publish_not_found publish_found)

text \<open>The hash \<^verbatim>\<open>deadbeef\<close>, which no commit of the example repository has, and the hash
  \<^verbatim>\<open>c0ffee1\<close> of its second commit.\<close>

theorem anchor_commit_release_witness:
  "\<not> isl (resolve (example_World_with (example_Config\<lparr>CommitHash := ''deadbeef''\<rparr>) example_Client))
   \<and> ''deadbeef'' \<notin> Commit.SHA ` set (commits (projr (resolve
         (example_World_with (example_Config\<lparr>CommitHash := ''deadbeef''\<rparr>) example_Client))))
   \<and> cliHandler (example_World_with (example_Config\<lparr>CommitHash := ''deadbeef''\<rparr>) example_Client)
       = (Exited 65 (Error ''Commit not found''), [])
   \<and> \<not> isl (resolve (example_World_with example_Config example_Client))
   \<and> map Commit.SHA (commits (projr (resolve (example_World_with example_Config example_Client))))
       = [''c0ffee2'', ''c0ffee1'']
   \<and> CommitHash example_Config = ''c0ffee1''
   \<and> cliHandler (example_World_with example_Config example_Client)
       = (Returned,
          [CreateRef ''refs/tags/pkgA-release-v1.1.0'' ''c0ffee1'',
           CreateReleaseObject
             \<lparr>TagName = ''pkgA-release-v1.1.0'', Name = ''pkgA-release-v1.1.0'',
              TargetCommitish = ''c0ffee1'',
              Body = ''## 1.1.0'' @ [CHR 0x0A] @ ''* chore: update deps'',
              Prerelease_opt = False\<rparr>,
           CreateRef ''refs/heads/pkgA-branch-v1.1.0'' ''c0ffee1''])"
proof -
  let ?N = "example_World_with (example_Config\<lparr>CommitHash := ''deadbeef''\<rparr>) example_Client"
  let ?F = "example_World_with example_Config example_Client"
  have nN: "\<not> isl (resolve ?N)" by code_simp
  have nF: "\<not> isl (resolve ?F)" by code_simp
  have wN: "write_changelog ?N (projr (resolve ?N)) = (None, [])" by code_simp
  have wF: "write_changelog ?F (projr (resolve ?F)) = (None, [])" by code_simp
  have hN: "CommitHash (conf (projr (resolve ?N))) = ''deadbeef''" by code_simp
  have hF: "CommitHash (conf (projr (resolve ?F))) = ''c0ffee1''" by code_simp
  have sN: "''deadbeef'' \<notin> Commit.SHA ` set (commits (projr (resolve ?N)))" by code_simp
  have sF: "map Commit.SHA (commits (projr (resolve ?F))) = [''c0ffee2'', ''c0ffee1'']" by code_simp
  have mF: "''c0ffee1'' \<in> Commit.SHA ` set (commits (projr (resolve ?F)))" by code_simp
  have cN: "cliHandler ?N = (Exited 65 (Error ''Commit not found''), [])"
    using anchor_commit_release [OF not_isl_Inr [OF nN] wN] hN sN by simp
  have "cliHandler ?F =
          (case CreateRelease (repo (projr (resolve ?F)))
                  (GetChangelog (externals ?F) (commits (projr (resolve ?F)))
                     (release (projr (resolve ?F))) (newVer (projr (resolve ?F))))
                  (newVer (projr (resolve ?F))) (Prerelease_flag (conf (projr (resolve ?F))))
                  (currentBranch (projr (resolve ?F))) (currentSha (projr (resolve ?F)))
                  ''c0ffee1'' (Pkgname (conf (projr (resolve ?F)))) of
             (Some err, evs') \<Rightarrow> (Exited 1 err, [] @ evs')
           | (None, evs') \<Rightarrow> write_ghr ?F (projr (resolve ?F)) ([] @ evs'))"
    using anchor_commit_release [OF not_isl_Inr [OF nF] wF] hF mF by simp
  also have "\<dots> = (Returned,
          [CreateRef ''refs/tags/pkgA-release-v1.1.0'' ''c0ffee1'',
           CreateReleaseObject
             \<lparr>TagName = ''pkgA-release-v1.1.0'', Name = ''pkgA-release-v1.1.0'',
              TargetCommitish = ''c0ffee1'',
              Body = ''## 1.1.0'' @ [CHR 0x0A] @ ''* chore: update deps'',
              Prerelease_opt = False\<rparr>,
           CreateRef ''refs/heads/pkgA-branch-v1.1.0'' ''c0ffee1''])"
    by code_simp
  finally have cF: "cliHandler ?F = (Returned,
          [CreateRef ''refs/tags/pkgA-release-v1.1.0'' ''c0ffee1'',
           CreateReleaseObject
             \<lparr>TagName = ''pkgA-release-v1.1.0'', Name = ''pkgA-release-v1.1.0'',
              TargetCommitish = ''c0ffee1'',
              Body = ''## 1.1.0'' @ [CHR 0x0A] @ ''* chore: update deps'',
              Prerelease_opt = False\<rparr>,
           CreateRef ''refs/heads/pkgA-branch-v1.1.0'' ''c0ffee1''])" .
  have e: "CommitHash example_Config = ''c0ffee1''" by (simp add: example_Config_def)
  from nN sN cN nF sF e cF show ?thesis by blast
qed

text \<open>
  Claim C10: \<^verbatim>\<open>foundCommit\<close> is set exactly when a fetched commit has the configured
  hash. With the empty hash, a run that has passed the dry-run gate and the changelog
  step ends with \<^verbatim>\<open>Commit not found\<close> exactly when no fetched commit has the empty SHA,
  and with no fetched commit it ends so whatever the hash.
\<close>

theorem anchor_hash_mandatory:
  assumes "resolve w = Inr l"
      and "write_changelog w l = (None, evs)"
  shows "snd (anchor (commits l) (CommitHash (conf l)))
           = (CommitHash (conf l) \<in> Commit.SHA ` set (commits l))
       \<and> (CommitHash (conf l) = '''' \<longrightarrow>
            (cliHandler w = (Exited 65 (Error ''Commit not found''), evs))
              = ('''' \<notin> Commit.SHA ` set (commits l)))
       \<and> (commits l = [] \<longrightarrow> cliHandler w = (Exited 65 (Error ''Commit not found''), evs))"
proof (intro conjI impI)
  show "snd (anchor (commits l) (CommitHash (conf l)))
           = (CommitHash (conf l) \<in> Commit.SHA ` set (commits l))"
    by (simp add: anchor_eq)
next
  assume h: "CommitHash (conf l) = ''''"
  show "(cliHandler w = (Exited 65 (Error ''Commit not found''), evs))
          = ('''' \<notin> Commit.SHA ` set (commits l))"
  proof (cases "'''' \<in> Commit.SHA ` set (commits l)")
    case True
    with h have "CommitHash (conf l) \<in> Commit.SHA ` set (commits l)" by simp
    from publish_found_code [OF assms(2) this]
    have "fst (publish w l) \<noteq> Exited 65 (Error ''Commit not found'')" .
    then have "publish w l \<noteq> (Exited 65 (Error ''Commit not found''), evs)" by auto
    with True assms(1) show ?thesis by (simp add: resolve_Inr)
  next
    case False
    with h assms show ?thesis by (simp add: resolve_Inr publish_not_found)
  qed
next
  assume "commits l = []"
  with assms show "cliHandler w = (Exited 65 (Error ''Commit not found''), evs)"
    by (simp add: resolve_Inr publish_not_found)
qed

text \<open>No hash configured in the example repository, and the example repository without
  commits.\<close>

theorem anchor_hash_mandatory_witness:
  "\<not> isl (resolve (example_World_with (example_Config\<lparr>CommitHash := ''''\<rparr>) example_Client))
   \<and> map Commit.SHA (commits (projr (resolve
         (example_World_with (example_Config\<lparr>CommitHash := ''''\<rparr>) example_Client))))
       = [''c0ffee2'', ''c0ffee1'']
   \<and> cliHandler (example_World_with (example_Config\<lparr>CommitHash := ''''\<rparr>) example_Client)
       = (Exited 65 (Error ''Commit not found''), [])
   \<and> \<not> isl (resolve (example_World_with example_Config example_Client_no_commits))
   \<and> commits (projr (resolve (example_World_with example_Config example_Client_no_commits))) = []
   \<and> cliHandler (example_World_with example_Config example_Client_no_commits)
       = (Exited 65 (Error ''Commit not found''), [])"
proof -
  let ?E = "example_World_with (example_Config\<lparr>CommitHash := ''''\<rparr>) example_Client"
  let ?Z = "example_World_with example_Config example_Client_no_commits"
  have nE: "\<not> isl (resolve ?E)" by code_simp
  have nZ: "\<not> isl (resolve ?Z)" by code_simp
  have wE: "write_changelog ?E (projr (resolve ?E)) = (None, [])" by code_simp
  have wZ: "write_changelog ?Z (projr (resolve ?Z)) = (None, [])" by code_simp
  have hE: "CommitHash (conf (projr (resolve ?E))) = ''''" by code_simp
  have sE: "map Commit.SHA (commits (projr (resolve ?E))) = [''c0ffee2'', ''c0ffee1'']" by code_simp
  have mE: "'''' \<notin> Commit.SHA ` set (commits (projr (resolve ?E)))" by code_simp
  have cZ: "commits (projr (resolve ?Z)) = []" by code_simp
  have rE: "cliHandler ?E = (Exited 65 (Error ''Commit not found''), [])"
    using anchor_hash_mandatory [OF not_isl_Inr [OF nE] wE] hE mE by simp
  have rZ: "cliHandler ?Z = (Exited 65 (Error ''Commit not found''), [])"
    using anchor_hash_mandatory [OF not_isl_Inr [OF nZ] wZ] cZ by simp
  from nE sE rE nZ cZ rZ show ?thesis by blast
qed

end
